theory Spec2Isabelle
  imports Complex_Main "HOL-Library.Multiset"
begin

section \<open>Data model\<close>

text \<open>
  The four tables of \<^verbatim>\<open>db/schema.ts\<close> and the API types of \<^verbatim>\<open>schema.ts\<close>.
  A table is the list of its rows in insertion order; a \<^verbatim>\<open>serial\<close> primary key is drawn
  from a sequence kept in the store. Nullable columns are options.

  Money: the \<^verbatim>\<open>numeric\<close> columns and the JavaScript numbers read from them with
  \<^verbatim>\<open>parseFloat\<close> are modelled as exact rationals (\<^typ>\<open>rat\<close>), so \<^verbatim>\<open>parseFloat\<close> and
  \<^verbatim>\<open>toString\<close> on a numeric column are the identity and the precision of the column and
  of binary floating point is not modelled. Timestamps are natural numbers supplied by
  the caller of each operation (the clock is an input).
\<close>

datatype transaction_status = Pending | Processing | Success | Failed | Cancelled

datatype denomination_type = DFixed | DRange

type_synonym timestamp = nat

type_synonym json = "(string \<times> string) list"

record user =
  u_id :: int
  u_email :: string
  u_password_hash :: string
  u_full_name :: string
  u_phone_number :: "string option"
  u_referral_code :: string
  u_referred_by_id :: "int option"
  u_created_at :: timestamp
  u_updated_at :: timestamp

record product =
  p_id :: int
  p_sku :: string
  p_name :: string
  p_price :: rat
  p_base_price :: rat
  p_is_active :: bool
  p_min_amount :: "rat option"
  p_max_amount :: "rat option"
  p_denomination_type :: denomination_type

record transaction =
  t_id :: int
  t_user_id :: int
  t_product_id :: int
  t_transaction_id :: string
  t_external_transaction_id :: "string option"
  t_amount :: rat
  t_price :: rat
  t_status :: transaction_status
  t_customer_phone :: "string option"
  t_customer_id :: "string option"
  t_customer_name :: "string option"
  t_notes :: "string option"
  t_digiflazz_response :: "json option"
  t_created_at :: timestamp
  t_updated_at :: timestamp

record referral =
  r_id :: int
  r_referrer_id :: int
  r_referred_id :: int
  r_commission_amount :: rat
  r_transaction_id :: int
  r_is_paid :: bool
  r_created_at :: timestamp

record store =
  users :: "user list"
  products :: "product list"
  transactions :: "transaction list"
  referrals :: "referral list"
  transactions_id_seq :: int
  referrals_id_seq :: int

text \<open>
  Errors are values. \<open>Error msg\<close> is \<^verbatim>\<open>throw new Error(msg)\<close> with a literal message;
  \<open>ErrorWithBound msg b\<close> is a template-literal message that ends with the numeric column
  \<open>b\<close>; \<open>UniqueViolation c\<close> is the store rejecting an insert that repeats a value of the
  unique column \<open>c\<close>; \<open>StoreFailure\<close> is any other exception raised by a store call.
\<close>

datatype error =
    Error string
  | ErrorWithBound string rat
  | UniqueViolation string
  | StoreFailure

record create_transaction_input =
  cti_user_id :: int
  cti_product_id :: int
  cti_amount :: "rat option"
  cti_customer_phone :: "string option"
  cti_customer_id :: "string option"
  cti_customer_name :: "string option"

section \<open>Transaction handlers\<close>

text \<open>
  \<^verbatim>\<open>x || null\<close> on an optional string: the empty string is falsy and becomes null.
\<close>

definition or_null :: "string option \<Rightarrow> string option" where
  "or_null x = (case x of None \<Rightarrow> None | Some s \<Rightarrow> (if s = [] then None else Some s))"

text \<open>
  \<^verbatim>\<open>TXN_${Date.now()}_${Math.random().toString(36).substr(2, 9)}\<close>: the rendered clock
  reading and the random suffix are inputs.
\<close>

definition generateTransactionId :: "string \<Rightarrow> string \<Rightarrow> string" where
  "generateTransactionId millis suffix = ''TXN_'' @ millis @ ''_'' @ suffix"

text \<open>
  \<^verbatim>\<open>input.amount || parseFloat(product[0].price)\<close>: an omitted amount and the falsy
  number \<open>0\<close> both select the product's price.
\<close>

definition resolve_amount :: "rat option \<Rightarrow> rat \<Rightarrow> rat" where
  "resolve_amount a price = (case a of None \<Rightarrow> price | Some v \<Rightarrow> (if v = 0 then price else v))"

text \<open>
  The insert of step 5. The column \<^verbatim>\<open>transaction_id\<close> is declared unique, so the store
  rejects a repeated identifier; \<^verbatim>\<open>id\<close> comes from the sequence, \<^verbatim>\<open>created_at\<close> and
  \<^verbatim>\<open>updated_at\<close> default to the store's clock, the columns not given are null.
  Not modelled: the column type \<^verbatim>\<open>numeric(10, 2)\<close> of \<^verbatim>\<open>amount\<close> and \<^verbatim>\<open>price\<close> (the
  store rounds a value to two decimals and rejects one of more than eight integer
  digits), and the sequence value that a rejected insert uses up. Nothing below states
  the stored amount of a supplied value that is not already the product's price.
\<close>

definition insert_transaction ::
  "timestamp \<Rightarrow> store \<Rightarrow> int \<Rightarrow> int \<Rightarrow> string \<Rightarrow> rat \<Rightarrow> rat \<Rightarrow>
   string option \<Rightarrow> string option \<Rightarrow> string option \<Rightarrow> error + (transaction \<times> store)" where
  "insert_transaction now s uid pid tid amount price phone cid cname =
     (if tid \<in> set (map t_transaction_id (transactions s)) then Inl (UniqueViolation ''transaction_id'')
      else
        let row = \<lparr> t_id = transactions_id_seq s, t_user_id = uid, t_product_id = pid,
                    t_transaction_id = tid, t_external_transaction_id = None,
                    t_amount = amount, t_price = price, t_status = Pending,
                    t_customer_phone = phone, t_customer_id = cid, t_customer_name = cname,
                    t_notes = None, t_digiflazz_response = None,
                    t_created_at = now, t_updated_at = now \<rparr>
        in Inr (row, s\<lparr> transactions := transactions s @ [row],
                        transactions_id_seq := transactions_id_seq s + 1 \<rparr>))"

text \<open>
  The bound checks of step 3. A numeric column read from the store is a string, which is
  truthy whenever it is not null, so \<^verbatim>\<open>product[0].min_amount && ...\<close> tests the bound
  exactly when the column is set.
\<close>

definition check_min :: "product \<Rightarrow> rat \<Rightarrow> error option" where
  "check_min p finalAmount =
     (case p_min_amount p of
        None \<Rightarrow> None
      | Some m \<Rightarrow> (if finalAmount < m then Some (ErrorWithBound ''Amount must be at least '' m)
                  else None))"

definition check_max :: "product \<Rightarrow> rat \<Rightarrow> error option" where
  "check_max p finalAmount =
     (case p_max_amount p of
        None \<Rightarrow> None
      | Some m \<Rightarrow> (if finalAmount > m then Some (ErrorWithBound ''Amount must not exceed '' m)
                  else None))"

definition check_range :: "product \<Rightarrow> rat \<Rightarrow> error option" where
  "check_range p finalAmount =
     (if p_denomination_type p = DRange
      then (case check_min p finalAmount of
              Some e \<Rightarrow> Some e
            | None \<Rightarrow> check_max p finalAmount)
      else None)"

definition createTransaction ::
  "timestamp \<Rightarrow> string \<Rightarrow> string \<Rightarrow> store \<Rightarrow> create_transaction_input \<Rightarrow>
   error + (transaction \<times> store)" where
  "createTransaction now millis suffix s input =
     (if filter (\<lambda>u. u_id u = cti_user_id input) (users s) = [] then Inl (Error ''User not found'')
      else case filter (\<lambda>p. p_id p = cti_product_id input) (products s) of
        [] \<Rightarrow> Inl (Error ''Product not found'')
      | p # _ \<Rightarrow>
          if \<not> p_is_active p then Inl (Error ''Product is not active'')
          else
            let finalAmount = resolve_amount (cti_amount input) (p_price p);
                finalPrice = p_price p
            in (case check_range p finalAmount of
                  Some e \<Rightarrow> Inl e
                | None \<Rightarrow>
                    insert_transaction now s (cti_user_id input) (cti_product_id input)
                      (generateTransactionId millis suffix) finalAmount finalPrice
                      (or_null (cti_customer_phone input)) (or_null (cti_customer_id input))
                      (or_null (cti_customer_name input))))"

text \<open>
  \<^verbatim>\<open>Math.round(amount * 0.05)\<close>. \<^verbatim>\<open>Math.round\<close> rounds to the nearest integer with
  halves going up, which is \<^const>\<open>round\<close> (\<open>round x = \<lfloor>x + 1/2\<rfloor>\<close>).
\<close>

definition calculateCommission :: "rat \<Rightarrow> int" where
  "calculateCommission amount = round (amount * (5 / 100))"

text \<open>
  Exceptions raised by the store itself are inputs of \<^verbatim>\<open>updateTransactionStatus\<close>: one
  flag for each store call it makes, because the handler treats them differently (it
  rethrows the update's, the commission step swallows its own). The other handlers only
  rethrow what the store raises, and the model gives them no such input apart from the
  unique constraint checked by the insert of a transaction.
\<close>

record faults =
  update_throws :: bool
  select_user_throws :: bool
  insert_referral_throws :: bool

definition no_faults :: faults where
  "no_faults = \<lparr> update_throws = False, select_user_throws = False,
                 insert_referral_throws = False \<rparr>"

text \<open>
  The insert into \<^verbatim>\<open>referralsTable\<close>: \<^verbatim>\<open>is_paid\<close> is not given and defaults to false,
  \<^verbatim>\<open>created_at\<close> defaults to the store's clock. The table declares no unique column
  besides its primary key.
\<close>

definition new_referral :: "timestamp \<Rightarrow> store \<Rightarrow> int \<Rightarrow> int \<Rightarrow> rat \<Rightarrow> int \<Rightarrow> referral" where
  "new_referral now s referrer referred commission tid =
     \<lparr> r_id = referrals_id_seq s, r_referrer_id = referrer, r_referred_id = referred,
       r_commission_amount = commission, r_transaction_id = tid, r_is_paid = False,
       r_created_at = now \<rparr>"

definition insert_referral :: "timestamp \<Rightarrow> store \<Rightarrow> int \<Rightarrow> int \<Rightarrow> rat \<Rightarrow> int \<Rightarrow> store" where
  "insert_referral now s referrer referred commission tid =
     s\<lparr> referrals := referrals s @ [new_referral now s referrer referred commission tid],
        referrals_id_seq := referrals_id_seq s + 1 \<rparr>"

text \<open>
  The \<^verbatim>\<open>try\<close> block of \<^verbatim>\<open>processReferralCommission\<close> in \<^verbatim>\<open>handlers/transactions.ts\<close>.
  \<^verbatim>\<open>user[0].referred_by_id\<close> is tested for truthiness: null and \<open>0\<close> are falsy.
\<close>

definition processReferralCommission_try ::
  "faults \<Rightarrow> timestamp \<Rightarrow> store \<Rightarrow> int \<Rightarrow> int \<Rightarrow> rat \<Rightarrow> error + store" where
  "processReferralCommission_try f now s transactionId userId amount =
     (if select_user_throws f then Inl StoreFailure
      else case filter (\<lambda>u. u_id u = userId) (users s) of
        [] \<Rightarrow> Inr s
      | u # _ \<Rightarrow>
          (case u_referred_by_id u of
             None \<Rightarrow> Inr s
           | Some r \<Rightarrow>
               if r = 0 then Inr s
               else
                 let commissionAmount = calculateCommission amount
                 in if insert_referral_throws f then Inl StoreFailure
                    else Inr (insert_referral now s r userId (of_int commissionAmount)
                                transactionId)))"

text \<open>The \<^verbatim>\<open>catch\<close> block logs and returns: the error is dropped, the store is as before.\<close>

definition processReferralCommission ::
  "faults \<Rightarrow> timestamp \<Rightarrow> store \<Rightarrow> int \<Rightarrow> int \<Rightarrow> rat \<Rightarrow> store" where
  "processReferralCommission f now s transactionId userId amount =
     (case processReferralCommission_try f now s transactionId userId amount of
        Inl e \<Rightarrow> s
      | Inr s' \<Rightarrow> s')"

text \<open>
  The exported \<^verbatim>\<open>processReferralCommission\<close> of \<^verbatim>\<open>handlers/referrals.ts\<close>, the other
  implementation of the commission step in the repository: the transaction joined with
  its user; null when there is no such row or the user has no referrer; otherwise a
  referral whose commission is the transaction's \<^verbatim>\<open>price\<close> times 0.05, inserted and
  returned. Its \<^verbatim>\<open>catch\<close> rethrows.
\<close>

definition processReferralCommission_exported ::
  "timestamp \<Rightarrow> store \<Rightarrow> int \<Rightarrow> referral option \<times> store" where
  "processReferralCommission_exported now s transactionId =
     (case concat (map (\<lambda>t. map (\<lambda>u. (t, u)) (filter (\<lambda>u. u_id u = t_user_id t) (users s)))
                    (filter (\<lambda>t. t_id t = transactionId) (transactions s))) of
        [] \<Rightarrow> (None, s)
      | row # _ \<Rightarrow>
          (case u_referred_by_id (snd row) of
             None \<Rightarrow> (None, s)
           | Some r \<Rightarrow>
               if r = 0 then (None, s)
               else
                 let commissionRate = 5 / 100;
                     commissionAmount = t_price (fst row) * commissionRate
                 in (Some (new_referral now s r (u_id (snd row)) commissionAmount transactionId),
                     insert_referral now s r (u_id (snd row)) commissionAmount transactionId)))"

record update_transaction_status_input =
  uts_transaction_id :: string
  uts_status :: transaction_status
  uts_external_transaction_id :: "string option"
  uts_digiflazz_response :: "json option"

text \<open>
  The \<^verbatim>\<open>set\<close> clause of the update. A payload is an object, which is always truthy, so
  \<^verbatim>\<open>input.digiflazz_response || null\<close> keeps it.
\<close>

definition set_status :: "timestamp \<Rightarrow> update_transaction_status_input \<Rightarrow> transaction \<Rightarrow> transaction" where
  "set_status now input t =
     t\<lparr> t_status := uts_status input,
        t_external_transaction_id := or_null (uts_external_transaction_id input),
        t_digiflazz_response := uts_digiflazz_response input,
        t_updated_at := now \<rparr>"

text \<open>
  The \<^verbatim>\<open>update ... where ... returning\<close> statement: it changes every row whose
  \<^verbatim>\<open>transaction_id\<close> equals the input's and returns the changed rows.
\<close>

definition hit :: "update_transaction_status_input \<Rightarrow> transaction \<Rightarrow> bool" where
  "hit input t \<longleftrightarrow> t_transaction_id t = uts_transaction_id input"

definition update_rows :: "timestamp \<Rightarrow> update_transaction_status_input \<Rightarrow> store \<Rightarrow> store" where
  "update_rows now input s =
     s\<lparr> transactions :=
          map (\<lambda>t. if hit input t then set_status now input t else t) (transactions s) \<rparr>"

definition returning :: "timestamp \<Rightarrow> update_transaction_status_input \<Rightarrow> store \<Rightarrow> transaction list" where
  "returning now input s = map (set_status now input) (filter (hit input) (transactions s))"

text \<open>
  \<^verbatim>\<open>updateTransactionStatus\<close>: null when the update returned no row; otherwise the first
  returned row, after the commission step when the new status is \<^verbatim>\<open>success\<close>. Its own
  \<^verbatim>\<open>catch\<close> rethrows.
\<close>

definition updateTransactionStatus ::
  "faults \<Rightarrow> timestamp \<Rightarrow> store \<Rightarrow> update_transaction_status_input \<Rightarrow>
   error + (transaction option \<times> store)" where
  "updateTransactionStatus f now s input =
     (if update_throws f then Inl StoreFailure
      else
        let result = returning now input s;
            s1 = update_rows now input s
        in (case result of
              [] \<Rightarrow> Inr (None, s1)
            | transaction # _ \<Rightarrow>
                (let s2 = (if uts_status input = Success
                           then processReferralCommission f now s1 (t_id transaction)
                                  (t_user_id transaction) (t_amount transaction)
                           else s1)
                 in Inr (Some transaction, s2))))"

text \<open>
  A sequence of status updates delivered to the store, each with its own faults and
  clock reading. A delivery that throws leaves the store as it was.
\<close>

definition deliver :: "store \<Rightarrow> faults \<times> timestamp \<times> update_transaction_status_input \<Rightarrow> store" where
  "deliver s d =
     (case updateTransactionStatus (fst d) (fst (snd d)) s (snd (snd d)) of
        Inl e \<Rightarrow> s
      | Inr r \<Rightarrow> snd r)"

definition deliveries ::
  "store \<Rightarrow> (faults \<times> timestamp \<times> update_transaction_status_input) list \<Rightarrow> store" where
  "deliveries s ds = foldl deliver s ds"

definition referrals_of_transaction :: "store \<Rightarrow> int \<Rightarrow> referral list" where
  "referrals_of_transaction s tid = filter (\<lambda>r. r_transaction_id r = tid) (referrals s)"

section \<open>Referral handlers\<close>

text \<open>
  The query of \<^verbatim>\<open>getUserReferrals\<close>, clause by clause: users left-joined with the
  transactions that belong to them and have status \<^verbatim>\<open>success\<close>; the rows whose user was
  referred by \<^verbatim>\<open>userId\<close>; grouped by the user's id, name, email and creation time;
  \<^verbatim>\<open>count(transactions.id)\<close> and \<^verbatim>\<open>COALESCE(SUM(transactions.price), 0)\<close> for each group.
  A user without a matching transaction is joined with one all-null row. The query has
  no \<^verbatim>\<open>ORDER BY\<close>: the order in which the store returns the groups is not fixed by the
  code, and is the input \<open>emit\<close> of \<open>getUserReferrals\<close>, a rearrangement of the groups
  chosen by the store.
\<close>

definition on_success :: "user \<Rightarrow> transaction \<Rightarrow> bool" where
  "on_success u t \<longleftrightarrow> t_user_id t = u_id u \<and> t_status t = Success"

definition join_rows :: "transaction list \<Rightarrow> user \<Rightarrow> (user \<times> transaction option) list" where
  "join_rows ts u =
     (case filter (on_success u) ts of
        [] \<Rightarrow> [(u, None)]
      | m # ms \<Rightarrow> map (\<lambda>t. (u, Some t)) (m # ms))"

definition left_join_success :: "user list \<Rightarrow> transaction list \<Rightarrow> (user \<times> transaction option) list" where
  "left_join_success us ts = concat (map (join_rows ts) us)"

definition group_key :: "user \<times> transaction option \<Rightarrow> int \<times> string \<times> string \<times> timestamp" where
  "group_key row = (u_id (fst row), u_full_name (fst row), u_email (fst row), u_created_at (fst row))"

text \<open>The group key of the rows joined to a user.\<close>

definition user_key :: "user \<Rightarrow> int \<times> string \<times> string \<times> timestamp" where
  "user_key u = (u_id u, u_full_name u, u_email u, u_created_at u)"

text \<open>SQL aggregates skip nulls; \<^verbatim>\<open>SUM\<close> over no value is null.\<close>

definition sql_count :: "'a option list \<Rightarrow> nat" where
  "sql_count xs = length (List.map_filter (\<lambda>x. x) xs)"

definition sql_sum :: "rat option list \<Rightarrow> rat option" where
  "sql_sum xs = (case List.map_filter (\<lambda>x. x) xs of [] \<Rightarrow> None | v # vs \<Rightarrow> Some (sum_list (v # vs)))"

definition coalesce :: "'a option \<Rightarrow> 'a \<Rightarrow> 'a" where
  "coalesce x d = (case x of None \<Rightarrow> d | Some v \<Rightarrow> v)"

record referred_user =
  ru_id :: int
  ru_full_name :: string
  ru_email :: string
  ru_joined_date :: timestamp
  ru_total_transactions :: nat
  ru_total_spent :: rat

record user_referrals =
  referred_users :: "referred_user list"
  total_referred :: nat

definition referred_rows :: "store \<Rightarrow> int \<Rightarrow> (user \<times> transaction option) list" where
  "referred_rows s userId =
     filter (\<lambda>row. u_referred_by_id (fst row) = Some userId)
       (left_join_success (users s) (transactions s))"

definition aggregate_group ::
  "(user \<times> transaction option) list \<Rightarrow> int \<times> string \<times> string \<times> timestamp \<Rightarrow> referred_user" where
  "aggregate_group rows k =
     (let g = filter (\<lambda>row. group_key row = k) rows
      in \<lparr> ru_id = fst k, ru_full_name = fst (snd k), ru_email = fst (snd (snd k)),
           ru_joined_date = snd (snd (snd k)),
           ru_total_transactions = sql_count (map (\<lambda>row. map_option t_id (snd row)) g),
           ru_total_spent = coalesce (sql_sum (map (\<lambda>row. map_option t_price (snd row)) g)) 0 \<rparr>)"

definition getUserReferrals ::
  "((int \<times> string \<times> string \<times> timestamp) list \<Rightarrow> (int \<times> string \<times> string \<times> timestamp) list) \<Rightarrow>
   store \<Rightarrow> int \<Rightarrow> user_referrals" where
  "getUserReferrals emit s userId =
     (let rows = referred_rows s userId;
          formattedUsers = map (aggregate_group rows) (emit (remdups (map group_key rows)))
      in \<lparr> referred_users = formattedUsers, total_referred = length formattedUsers \<rparr>)"

text \<open>
  What the specification says an entry of \<^verbatim>\<open>getUserReferrals\<close> holds for a referred
  user: the user's identity, the number of the user's transactions with status
  \<^verbatim>\<open>success\<close>, and the sum of their prices. It is compared with the query above.
\<close>

definition referral_summary :: "transaction list \<Rightarrow> user \<Rightarrow> referred_user" where
  "referral_summary ts u =
     \<lparr> ru_id = u_id u, ru_full_name = u_full_name u, ru_email = u_email u,
       ru_joined_date = u_created_at u,
       ru_total_transactions =
         length (filter (\<lambda>t. t_user_id t = u_id u \<and> t_status t = Success) ts),
       ru_total_spent =
         sum_list (map t_price (filter (\<lambda>t. t_user_id t = u_id u \<and> t_status t = Success) ts)) \<rparr>"

section \<open>Provider gateway classification\<close>

record digiflazz_order_response =
  d_ref_id :: string
  d_customer_no :: string
  d_buyer_sku_code :: string
  d_message :: string
  d_status :: string
  d_rc :: string
  d_buyer_last_saldo :: rat
  d_price :: rat
  d_tele :: string
  d_wa :: string
  d_serial_number :: "string option"

definition isDigiflazzSuccess :: "digiflazz_order_response \<Rightarrow> bool" where
  "isDigiflazzSuccess response \<longleftrightarrow> d_status response = ''Sukses'' \<and> d_rc response = ''00''"

definition isDigiflazzPending :: "digiflazz_order_response \<Rightarrow> bool" where
  "isDigiflazzPending response \<longleftrightarrow>
     d_status response = ''Pending'' \<or> d_status response = ''Process'' \<or>
     d_message response = ''PROCESS''"

definition isDigiflazzFailed :: "digiflazz_order_response \<Rightarrow> bool" where
  "isDigiflazzFailed response \<longleftrightarrow>
     d_status response = ''Gagal'' \<or> d_message response = ''GAGAL'' \<or>
     (d_rc response \<noteq> ''00'' \<and> d_status response \<noteq> ''Pending'')"

section \<open>Authentication\<close>

text \<open>
  \<^verbatim>\<open>String.prototype.split\<close> on a one-character separator: the pieces between the
  separators, of which there is always at least one.
\<close>

fun split_on :: "char \<Rightarrow> string \<Rightarrow> string list" where
  "split_on c [] = [[]]"
| "split_on c (x # xs) =
     (if x = c then [] # split_on c xs
      else (case split_on c xs of
              [] \<Rightarrow> [[x]]
            | w # ws \<Rightarrow> (x # w) # ws))"

text \<open>
  \<^verbatim>\<open>verifyPassword\<close>. The key derivation \<^verbatim>\<open>pbkdf2Sync(password, salt, 10000, 64, 'sha512')\<close>
  rendered in hex is the parameter \<open>kdf\<close>. With a stored value that has no colon the
  destructured \<^verbatim>\<open>hash\<close> is undefined, which is not strictly equal to any string.
\<close>

definition verifyPassword :: "(string \<Rightarrow> string \<Rightarrow> string) \<Rightarrow> string \<Rightarrow> string \<Rightarrow> bool" where
  "verifyPassword kdf password hashedPassword =
     (case split_on (CHR '':'') hashedPassword of
        salt # hash # _ \<Rightarrow> hash = kdf password salt
      | _ \<Rightarrow> False)"

record login_input =
  li_email :: string
  li_password :: string

record auth_user =
  au_id :: int
  au_email :: string
  au_full_name :: string
  au_phone_number :: "string option"
  au_referral_code :: string
  au_referred_by_id :: "int option"
  au_created_at :: timestamp
  au_updated_at :: timestamp

record auth_response =
  ar_user :: auth_user
  ar_token :: string

text \<open>
  \<^verbatim>\<open>login\<close>. \<^verbatim>\<open>generateToken\<close> reads the clock and the signing secret; it is the
  parameter \<open>generateToken\<close>.
\<close>

definition login ::
  "(string \<Rightarrow> string \<Rightarrow> string) \<Rightarrow> (int \<Rightarrow> string) \<Rightarrow> store \<Rightarrow> login_input \<Rightarrow> error + auth_response" where
  "login kdf generateToken s input =
     (case filter (\<lambda>u. u_email u = li_email input) (users s) of
        [] \<Rightarrow> Inl (Error ''Invalid email or password'')
      | user # _ \<Rightarrow>
          if \<not> verifyPassword kdf (li_password input) (u_password_hash user)
          then Inl (Error ''Invalid email or password'')
          else Inr \<lparr> ar_user = \<lparr> au_id = u_id user, au_email = u_email user,
                                  au_full_name = u_full_name user,
                                  au_phone_number = u_phone_number user,
                                  au_referral_code = u_referral_code user,
                                  au_referred_by_id = u_referred_by_id user,
                                  au_created_at = u_created_at user,
                                  au_updated_at = u_updated_at user \<rparr>,
                     ar_token = generateToken (u_id user) \<rparr>)"

section \<open>A sample store\<close>

text \<open>
  The fixtures of \<^verbatim>\<open>tests/transactions.test.ts\<close>: a referrer, a user referred by them and
  a user without referrer; a fixed product priced 5500, a range product priced 10000 with
  bounds 5000 and 50000, and an inactive product; one pending transaction of the referred
  user for each active product and one of the user without referrer.
\<close>

definition sample_referrer :: user where
  "sample_referrer =
     \<lparr> u_id = 1, u_email = ''referrer@test.com'', u_password_hash = ''ab:cd'',
       u_full_name = ''Referrer User'', u_phone_number = Some ''081234567890'',
       u_referral_code = ''REF001'', u_referred_by_id = None,
       u_created_at = 0, u_updated_at = 0 \<rparr>"

definition sample_buyer :: user where
  "sample_buyer =
     \<lparr> u_id = 2, u_email = ''user@test.com'', u_password_hash = ''ab:cd'',
       u_full_name = ''Test User'', u_phone_number = Some ''081234567891'',
       u_referral_code = ''REF002'', u_referred_by_id = Some 1,
       u_created_at = 0, u_updated_at = 0 \<rparr>"

definition sample_solo :: user where
  "sample_solo =
     \<lparr> u_id = 3, u_email = ''solo@test.com'', u_password_hash = ''ab:cd'',
       u_full_name = ''Solo User'', u_phone_number = None,
       u_referral_code = ''REF003'', u_referred_by_id = None,
       u_created_at = 0, u_updated_at = 0 \<rparr>"

definition fixed_product :: product where
  "fixed_product =
     \<lparr> p_id = 1, p_sku = ''MOBILE_001'', p_name = ''Mobile Credit 5K'', p_price = 5500,
       p_base_price = 5000, p_is_active = True, p_min_amount = None, p_max_amount = None,
       p_denomination_type = DFixed \<rparr>"

definition range_product :: product where
  "range_product =
     \<lparr> p_id = 2, p_sku = ''DATA_RANGE'', p_name = ''Data Package Range'', p_price = 10000,
       p_base_price = 9500, p_is_active = True, p_min_amount = Some 5000,
       p_max_amount = Some 50000, p_denomination_type = DRange \<rparr>"

definition inactive_product :: product where
  "inactive_product =
     \<lparr> p_id = 3, p_sku = ''INACTIVE_PROD'', p_name = ''Inactive Product'', p_price = 1000,
       p_base_price = 900, p_is_active = False, p_min_amount = None, p_max_amount = None,
       p_denomination_type = DFixed \<rparr>"

definition sample_transaction :: "int \<Rightarrow> int \<Rightarrow> int \<Rightarrow> string \<Rightarrow> rat \<Rightarrow> rat \<Rightarrow> transaction" where
  "sample_transaction i uid pid tid amount price =
     \<lparr> t_id = i, t_user_id = uid, t_product_id = pid, t_transaction_id = tid,
       t_external_transaction_id = None, t_amount = amount, t_price = price,
       t_status = Pending, t_customer_phone = Some ''081234567890'', t_customer_id = None,
       t_customer_name = None, t_notes = None, t_digiflazz_response = None,
       t_created_at = 1, t_updated_at = 1 \<rparr>"

definition sample_store :: store where
  "sample_store =
     \<lparr> users = [sample_referrer, sample_buyer, sample_solo],
       products = [fixed_product, range_product, inactive_product],
       transactions = [sample_transaction 1 2 1 ''TXN_1_a'' 5500 5500,
                       sample_transaction 2 2 2 ''TXN_2_b'' 25000 10000,
                       sample_transaction 3 3 1 ''TXN_3_c'' 5500 5500],
       referrals = [], transactions_id_seq = 4, referrals_id_seq = 1 \<rparr>"

definition success_update :: "string \<Rightarrow> update_transaction_status_input" where
  "success_update tid =
     \<lparr> uts_transaction_id = tid, uts_status = Success,
       uts_external_transaction_id = Some ''EXT_123456'',
       uts_digiflazz_response = Some [(''status'', ''success'')] \<rparr>"

definition purchase :: "int \<Rightarrow> int \<Rightarrow> rat option \<Rightarrow> create_transaction_input" where
  "purchase uid pid a =
     \<lparr> cti_user_id = uid, cti_product_id = pid, cti_amount = a,
       cti_customer_phone = Some ''081234567890'', cti_customer_id = None,
       cti_customer_name = Some ''John Doe'' \<rparr>"

definition unknown_update :: update_transaction_status_input where
  "unknown_update =
     \<lparr> uts_transaction_id = ''NON_EXISTENT'', uts_status = Failed,
       uts_external_transaction_id = None, uts_digiflazz_response = None \<rparr>"

definition insert_fault :: faults where
  "insert_fault = \<lparr> update_throws = False, select_user_throws = False,
                    insert_referral_throws = True \<rparr>"

definition timeout_response :: digiflazz_order_response where
  "timeout_response =
     \<lparr> d_ref_id = ''TEST'', d_customer_no = ''081234567890'', d_buyer_sku_code = ''TEST_SKU'',
       d_message = ''TIMEOUT'', d_status = ''Timeout'', d_rc = ''99'',
       d_buyer_last_saldo = 1000000, d_price = 5000, d_tele = ''628123456789'',
       d_wa = ''628123456789'', d_serial_number = None \<rparr>"

definition sample_kdf :: "string \<Rightarrow> string \<Rightarrow> string" where
  "sample_kdf password salt = salt @ password"

definition sample_token :: "int \<Rightarrow> string" where
  "sample_token uid = (if uid = 2 then ''token-2'' else ''token'')"

text \<open>
  A store for the referral listing: the referrer, the referred user with one successful
  and one failed transaction, and a second referred user without any transaction.
\<close>

definition sample_idle :: user where
  "sample_idle =
     \<lparr> u_id = 4, u_email = ''idle@test.com'', u_password_hash = ''ab:cd'',
       u_full_name = ''Idle User'', u_phone_number = None,
       u_referral_code = ''REF004'', u_referred_by_id = Some 1,
       u_created_at = 2, u_updated_at = 2 \<rparr>"

definition referral_store :: store where
  "referral_store =
     \<lparr> users = [sample_referrer, sample_buyer, sample_idle],
       products = [fixed_product, range_product, inactive_product],
       transactions = [(sample_transaction 1 2 1 ''TXN_001'' 5500 5500)\<lparr>t_status := Success\<rparr>,
                       (sample_transaction 2 2 2 ''TXN_003'' 25000 10000)\<lparr>t_status := Failed\<rparr>],
       referrals = [], transactions_id_seq = 3, referrals_id_seq = 1 \<rparr>"

section \<open>Facts about the sample store\<close>

lemma sample_buyer_row:
  "filter (\<lambda>u. u_id u = 2) (users sample_store) = [sample_buyer]"
  by (simp add: sample_store_def sample_referrer_def sample_buyer_def sample_solo_def)

lemma sample_solo_row:
  "filter (\<lambda>u. u_id u = 3) (users sample_store) = [sample_solo]"
  by (simp add: sample_store_def sample_referrer_def sample_buyer_def sample_solo_def)

lemma sample_fixed_product_row:
  "filter (\<lambda>p. p_id p = 1) (products sample_store) = [fixed_product]"
  by (simp add: sample_store_def fixed_product_def range_product_def inactive_product_def)

lemma sample_range_product_row:
  "filter (\<lambda>p. p_id p = 2) (products sample_store) = [range_product]"
  by (simp add: sample_store_def fixed_product_def range_product_def inactive_product_def)

lemma sample_fresh_id:
  "generateTransactionId ''17'' ''abc'' \<notin> set (map t_transaction_id (transactions sample_store))"
  by (simp add: sample_store_def sample_transaction_def generateTransactionId_def)

section \<open>Creating transactions\<close>

lemma createTransaction_created_fields:
  assumes "createTransaction now millis suffix s input = Inr (t, s')"
  shows "\<exists>p ps. filter (\<lambda>p. p_id p = cti_product_id input) (products s) = p # ps
           \<and> (cti_amount input = None \<or> cti_amount input = Some 0 \<longrightarrow> t_amount t = p_price p)
           \<and> t_price t = p_price p \<and> t_status t = Pending"
  using assms
  by (auto simp: createTransaction_def insert_transaction_def resolve_amount_def Let_def
           split: if_splits list.splits option.splits)

text \<open>
  C4. For a fixed-denomination product, \<open>createTransaction\<close> without an amount creates a
  transaction whose amount and price both equal the product's price and whose status is
  pending. The user exists, the product is the row found for the product id and is
  active, and the generated identifier is not yet in the table (the insert would be
  rejected otherwise).
\<close>

theorem createTransaction_fixed_default_amount:
  assumes "filter (\<lambda>u. u_id u = cti_user_id input) (users s) \<noteq> []"
      and "filter (\<lambda>p. p_id p = cti_product_id input) (products s) = p # ps"
      and "p_is_active p" and "p_denomination_type p = DFixed"
      and "cti_amount input = None"
      and "generateTransactionId millis suffix \<notin> set (map t_transaction_id (transactions s))"
  shows "\<exists>t s'. createTransaction now millis suffix s input = Inr (t, s')
           \<and> t_amount t = p_price p \<and> t_price t = p_price p \<and> t_status t = Pending
           \<and> transactions s' = transactions s @ [t]"
  using assms
  by (simp add: createTransaction_def insert_transaction_def check_range_def
        resolve_amount_def Let_def)

theorem createTransaction_fixed_default_amount_witness:
  "filter (\<lambda>u. u_id u = cti_user_id (purchase 2 1 None)) (users sample_store) \<noteq> []
   \<and> filter (\<lambda>p. p_id p = cti_product_id (purchase 2 1 None)) (products sample_store)
       = [fixed_product]
   \<and> p_is_active fixed_product \<and> p_denomination_type fixed_product = DFixed
   \<and> p_price fixed_product = 5500
   \<and> (\<exists>t s'. createTransaction 7 ''17'' ''abc'' sample_store (purchase 2 1 None) = Inr (t, s')
         \<and> t_amount t = 5500 \<and> t_price t = 5500 \<and> t_status t = Pending)"
proof -
  have u: "filter (\<lambda>u. u_id u = cti_user_id (purchase 2 1 None)) (users sample_store) \<noteq> []"
    by (simp add: purchase_def sample_buyer_row)
  have p: "filter (\<lambda>p. p_id p = cti_product_id (purchase 2 1 None)) (products sample_store)
             = [fixed_product]"
    by (simp add: purchase_def sample_fixed_product_row)
  have a: "p_is_active fixed_product" "p_denomination_type fixed_product = DFixed"
    by (simp_all add: fixed_product_def)
  have price: "p_price fixed_product = 5500"
    by (simp add: fixed_product_def)
  have n: "cti_amount (purchase 2 1 None) = None"
    by (simp add: purchase_def)
  from createTransaction_fixed_default_amount [OF u p a n sample_fresh_id, of 7]
  have "\<exists>t s'. createTransaction 7 ''17'' ''abc'' sample_store (purchase 2 1 None) = Inr (t, s')
         \<and> t_amount t = 5500 \<and> t_price t = 5500 \<and> t_status t = Pending"
    by (auto simp: price)
  with u p a price show ?thesis by simp
qed

text \<open>
  C10. An explicit amount of zero is handled exactly as an omitted amount: the two calls
  return the same result, every transaction created from a zero amount carries the
  product's price as its amount, and for a range product whose minimum is positive and
  whose price lies within the bounds the call is accepted with the price as amount
  instead of being rejected as below the minimum.
\<close>

theorem createTransaction_zero_amount_as_omitted:
  assumes zero: "cti_amount input = Some 0"
  shows "createTransaction now millis suffix s input
           = createTransaction now millis suffix s (input\<lparr>cti_amount := None\<rparr>)
       \<and> (\<forall>t s'. createTransaction now millis suffix s input = Inr (t, s') \<longrightarrow>
            (\<exists>p ps. filter (\<lambda>p. p_id p = cti_product_id input) (products s) = p # ps
                     \<and> t_amount t = p_price p))
       \<and> (\<forall>p ps lo.
            filter (\<lambda>u. u_id u = cti_user_id input) (users s) \<noteq> []
            \<and> filter (\<lambda>p. p_id p = cti_product_id input) (products s) = p # ps
            \<and> p_is_active p \<and> p_denomination_type p = DRange
            \<and> p_min_amount p = Some lo \<and> 0 < lo \<and> lo \<le> p_price p
            \<and> (\<forall>hi. p_max_amount p = Some hi \<longrightarrow> p_price p \<le> hi)
            \<and> generateTransactionId millis suffix \<notin> set (map t_transaction_id (transactions s))
            \<longrightarrow> (\<exists>t s'. createTransaction now millis suffix s input = Inr (t, s')
                          \<and> t_amount t = p_price p))"
proof (intro conjI allI impI)
  show "createTransaction now millis suffix s input
           = createTransaction now millis suffix s (input\<lparr>cti_amount := None\<rparr>)"
    by (simp add: createTransaction_def resolve_amount_def zero Let_def
          split: list.splits option.splits)
next
  fix t s'
  assume "createTransaction now millis suffix s input = Inr (t, s')"
  from createTransaction_created_fields [OF this]
  show "\<exists>p ps. filter (\<lambda>p. p_id p = cti_product_id input) (products s) = p # ps
                 \<and> t_amount t = p_price p"
    by (auto simp: zero)
next
  fix p ps lo
  assume h: "filter (\<lambda>u. u_id u = cti_user_id input) (users s) \<noteq> []
            \<and> filter (\<lambda>p. p_id p = cti_product_id input) (products s) = p # ps
            \<and> p_is_active p \<and> p_denomination_type p = DRange
            \<and> p_min_amount p = Some lo \<and> 0 < lo \<and> lo \<le> p_price p
            \<and> (\<forall>hi. p_max_amount p = Some hi \<longrightarrow> p_price p \<le> hi)
            \<and> generateTransactionId millis suffix \<notin> set (map t_transaction_id (transactions s))"
  then have "check_range p (p_price p) = None"
    by (auto simp: check_range_def check_min_def check_max_def split: option.splits)
  with h show "\<exists>t s'. createTransaction now millis suffix s input = Inr (t, s')
                          \<and> t_amount t = p_price p"
    by (simp add: createTransaction_def insert_transaction_def resolve_amount_def zero Let_def)
qed

theorem createTransaction_zero_amount_as_omitted_witness:
  "cti_amount (purchase 2 2 (Some 0)) = Some 0
   \<and> p_denomination_type range_product = DRange \<and> p_min_amount range_product = Some 5000
   \<and> createTransaction 7 ''17'' ''abc'' sample_store (purchase 2 2 (Some 0))
       = createTransaction 7 ''17'' ''abc'' sample_store (purchase 2 2 None)
   \<and> (\<exists>t s'. createTransaction 7 ''17'' ''abc'' sample_store (purchase 2 2 (Some 0)) = Inr (t, s')
                \<and> t_amount t = 10000)"
proof -
  have z: "cti_amount (purchase 2 2 (Some 0)) = Some 0"
    by (simp add: purchase_def)
  have o: "(purchase 2 2 (Some 0))\<lparr>cti_amount := None\<rparr> = purchase 2 2 None"
    by (simp add: purchase_def)
  have u: "filter (\<lambda>u. u_id u = cti_user_id (purchase 2 2 (Some 0))) (users sample_store) \<noteq> []"
    by (simp add: purchase_def sample_buyer_row)
  have p: "filter (\<lambda>p. p_id p = cti_product_id (purchase 2 2 (Some 0))) (products sample_store)
             = [range_product]"
    by (simp add: purchase_def sample_range_product_row)
  have a: "p_is_active range_product" "p_denomination_type range_product = DRange"
          "p_min_amount range_product = Some 5000" "p_max_amount range_product = Some 50000"
    by (simp_all add: range_product_def)
  have price: "p_price range_product = 10000"
    by (simp add: range_product_def)
  note t = createTransaction_zero_amount_as_omitted [OF z, of 7 "''17''" "''abc''" sample_store]
  from t have e: "createTransaction 7 ''17'' ''abc'' sample_store (purchase 2 2 (Some 0))
       = createTransaction 7 ''17'' ''abc'' sample_store (purchase 2 2 None)"
    by (simp add: o)
  have "\<exists>t s'. createTransaction 7 ''17'' ''abc'' sample_store (purchase 2 2 (Some 0)) = Inr (t, s')
                \<and> t_amount t = p_price range_product"
    using t [THEN conjunct2, THEN conjunct2, rule_format, of range_product "[]" 5000]
      u p a price sample_fresh_id by simp
  then have "\<exists>t s'. createTransaction 7 ''17'' ''abc'' sample_store (purchase 2 2 (Some 0)) = Inr (t, s')
                \<and> t_amount t = 10000"
    by (simp add: price)
  with z e a show ?thesis by simp
qed

text \<open>
  C3, at the input where the bound check is missed: the range product has minimum 5000
  and the call supplies the amount 0, which is strictly below the minimum; the call is
  accepted and the transaction is created with amount 10000, the product's price.
\<close>

theorem createTransaction_zero_amount_below_min_accepted:
  "p_denomination_type range_product = DRange \<and> p_min_amount range_product = Some 5000
   \<and> (\<exists>t s'. createTransaction 9 ''42'' ''zero'' sample_store
               \<lparr> cti_user_id = 2, cti_product_id = 2, cti_amount = Some 0,
                 cti_customer_phone = None, cti_customer_id = None, cti_customer_name = None \<rparr>
             = Inr (t, s')
           \<and> t_amount t = 10000 \<and> t_status t = Pending)"
  by (simp add: createTransaction_def insert_transaction_def resolve_amount_def Let_def
        check_range_def check_min_def check_max_def generateTransactionId_def or_null_def
        fixed_product_def range_product_def inactive_product_def
        sample_referrer_def sample_buyer_def sample_solo_def
        sample_store_def sample_transaction_def)

text \<open>
  Away from zero the bounds of a range product are enforced: a supplied non-zero amount
  below the minimum or above the maximum is rejected with the violated bound, and one
  within the bounds is accepted.
\<close>

lemma createTransaction_range_nonzero:
  assumes "filter (\<lambda>u. u_id u = cti_user_id input) (users s) \<noteq> []"
      and "filter (\<lambda>p. p_id p = cti_product_id input) (products s) = p # ps"
      and "p_is_active p" and "p_denomination_type p = DRange"
      and "p_min_amount p = Some lo" and "p_max_amount p = Some hi"
      and "cti_amount input = Some a" and "a \<noteq> 0"
      and "generateTransactionId millis suffix \<notin> set (map t_transaction_id (transactions s))"
  shows "(a < lo \<longrightarrow> createTransaction now millis suffix s input
                      = Inl (ErrorWithBound ''Amount must be at least '' lo))
       \<and> (lo \<le> a \<and> hi < a \<longrightarrow> createTransaction now millis suffix s input
                      = Inl (ErrorWithBound ''Amount must not exceed '' hi))
       \<and> (lo \<le> a \<and> a \<le> hi \<longrightarrow>
            (\<exists>t s'. createTransaction now millis suffix s input = Inr (t, s')
                     \<and> t_price t = p_price p \<and> t_status t = Pending))"
  using assms
  by (simp add: createTransaction_def insert_transaction_def check_range_def check_min_def
        check_max_def resolve_amount_def Let_def)

section \<open>Status updates\<close>

lemma set_status_fields:
  "t_id (set_status now input t) = t_id t"
  "t_user_id (set_status now input t) = t_user_id t"
  "t_amount (set_status now input t) = t_amount t"
  "t_price (set_status now input t) = t_price t"
  "t_transaction_id (set_status now input t) = t_transaction_id t"
  "t_status (set_status now input t) = uts_status input"
  "t_external_transaction_id (set_status now input t) = or_null (uts_external_transaction_id input)"
  "t_digiflazz_response (set_status now input t) = uts_digiflazz_response input"
  "t_updated_at (set_status now input t) = now"
  by (simp_all add: set_status_def)

lemma update_rows_fields:
  "users (update_rows now input s) = users s"
  "products (update_rows now input s) = products s"
  "referrals (update_rows now input s) = referrals s"
  "referrals_id_seq (update_rows now input s) = referrals_id_seq s"
  "transactions (update_rows now input s)
     = map (\<lambda>t. if hit input t then set_status now input t else t) (transactions s)"
  by (simp_all add: update_rows_def)

lemma update_rows_no_hit:
  assumes "filter (hit input) (transactions s) = []"
  shows "update_rows now input s = s"
proof -
  have "\<forall>t \<in> set (transactions s). \<not> hit input t"
    using assms by (simp add: filter_empty_conv)
  then have "map (\<lambda>t. if hit input t then set_status now input t else t) (transactions s)
               = transactions s"
    by (simp add: map_idI)
  then show ?thesis by (simp add: update_rows_def)
qed

lemma hit_set_status: "hit input (set_status now input' t) = hit input t"
  by (simp add: hit_def set_status_def)

lemma filter_hit_update_rows:
  "filter (hit input) (transactions (update_rows now input s))
     = map (set_status now input) (filter (hit input) (transactions s))"
  by (induction "transactions s" arbitrary: s)
     (auto simp: update_rows_def hit_set_status filter_map o_def intro: arg_cong)

lemma returning_first:
  assumes "filter (hit input) (transactions s) = t # ts"
  shows "returning now input s = set_status now input t # map (set_status now input) ts"
  using assms by (simp add: returning_def)

lemma set_status_in_update_rows:
  assumes "filter (hit input) (transactions s) = t # ts"
  shows "set_status now input t \<in> set (transactions (update_rows now input s))"
proof -
  have "t \<in> set (filter (hit input) (transactions s))"
    using assms by simp
  then have "t \<in> set (transactions s)" "hit input t" by simp_all
  then show ?thesis by (auto simp: update_rows_def)
qed

lemma sample_hit_1:
  "filter (hit (success_update ''TXN_1_a'')) (transactions sample_store)
     = [sample_transaction 1 2 1 ''TXN_1_a'' 5500 5500]"
  by (simp add: hit_def success_update_def sample_store_def sample_transaction_def)

lemma sample_hit_2:
  "filter (hit (success_update ''TXN_2_b'')) (transactions sample_store)
     = [sample_transaction 2 2 2 ''TXN_2_b'' 25000 10000]"
  by (simp add: hit_def success_update_def sample_store_def sample_transaction_def)

lemma sample_hit_3:
  "filter (hit (success_update ''TXN_3_c'')) (transactions sample_store)
     = [sample_transaction 3 3 1 ''TXN_3_c'' 5500 5500]"
  by (simp add: hit_def success_update_def sample_store_def sample_transaction_def)

lemma sample_transaction_fields:
  "t_id (sample_transaction i uid pid tid amount price) = i"
  "t_user_id (sample_transaction i uid pid tid amount price) = uid"
  "t_amount (sample_transaction i uid pid tid amount price) = amount"
  "t_price (sample_transaction i uid pid tid amount price) = price"
  by (simp_all add: sample_transaction_def)

lemma success_update_status: "uts_status (success_update tid) = Success"
  by (simp add: success_update_def)

lemma no_faults_fields:
  "\<not> update_throws no_faults" "\<not> select_user_throws no_faults"
  "\<not> insert_referral_throws no_faults"
  by (simp_all add: no_faults_def)

text \<open>
  C5. A status update whose \<open>transaction_id\<close> matches no stored transaction returns the
  empty result and leaves the store as it was, provided the update statement itself does
  not throw.
\<close>

theorem updateTransactionStatus_unknown_id:
  assumes "\<not> update_throws f"
      and "filter (hit input) (transactions s) = []"
  shows "updateTransactionStatus f now s input = Inr (None, s)"
  using assms
  by (simp add: updateTransactionStatus_def returning_def update_rows_no_hit)

theorem updateTransactionStatus_unknown_id_witness:
  "\<not> update_throws no_faults
   \<and> filter (hit unknown_update) (transactions sample_store) = []
   \<and> updateTransactionStatus no_faults 5 sample_store unknown_update = Inr (None, sample_store)"
proof -
  have a: "\<not> update_throws no_faults" by (simp add: no_faults_def)
  have b: "filter (hit unknown_update) (transactions sample_store) = []"
    by (simp add: hit_def unknown_update_def sample_store_def sample_transaction_def)
  from updateTransactionStatus_unknown_id [OF a b] a b show ?thesis by simp
qed

text \<open>
  C6. On a success update of an existing transaction, when the commission step fails
  (its \<open>try\<close> block ends in an exception), \<open>updateTransactionStatus\<close> still returns the
  updated transaction, and the store it leaves is the store after the update statement:
  the row is in the table with the new status, the external id and the payload.
\<close>

theorem updateTransactionStatus_survives_settlement_failure:
  assumes ok: "\<not> update_throws f"
      and row: "filter (hit input) (transactions s) = t # ts"
      and success: "uts_status input = Success"
      and failure: "processReferralCommission_try f now (update_rows now input s)
                      (t_id t) (t_user_id t) (t_amount t) = Inl e"
  shows "updateTransactionStatus f now s input
           = Inr (Some (set_status now input t), update_rows now input s)
       \<and> set_status now input t \<in> set (transactions (update_rows now input s))
       \<and> t_status (set_status now input t) = Success
       \<and> t_external_transaction_id (set_status now input t)
           = or_null (uts_external_transaction_id input)
       \<and> t_digiflazz_response (set_status now input t) = uts_digiflazz_response input"
proof -
  have "processReferralCommission f now (update_rows now input s)
          (t_id t) (t_user_id t) (t_amount t) = update_rows now input s"
    by (simp add: processReferralCommission_def failure)
  then have "updateTransactionStatus f now s input
           = Inr (Some (set_status now input t), update_rows now input s)"
    using ok success
    by (simp add: updateTransactionStatus_def returning_first [OF row] set_status_fields)
  then show ?thesis
    using set_status_in_update_rows [OF row] success by (simp add: set_status_fields)
qed

theorem updateTransactionStatus_survives_settlement_failure_witness:
  "\<not> update_throws insert_fault
   \<and> processReferralCommission_try insert_fault 5
        (update_rows 5 (success_update ''TXN_1_a'') sample_store) 1 2 5500 = Inl StoreFailure
   \<and> updateTransactionStatus insert_fault 5 sample_store (success_update ''TXN_1_a'')
       = Inr (Some (set_status 5 (success_update ''TXN_1_a'')
                      (sample_transaction 1 2 1 ''TXN_1_a'' 5500 5500)),
              update_rows 5 (success_update ''TXN_1_a'') sample_store)
   \<and> t_status (set_status 5 (success_update ''TXN_1_a'')
                      (sample_transaction 1 2 1 ''TXN_1_a'' 5500 5500)) = Success
   \<and> t_external_transaction_id (set_status 5 (success_update ''TXN_1_a'')
                      (sample_transaction 1 2 1 ''TXN_1_a'' 5500 5500)) = Some ''EXT_123456''"
proof -
  let ?t = "sample_transaction 1 2 1 ''TXN_1_a'' 5500 5500"
  have ok: "\<not> update_throws insert_fault" by (simp add: insert_fault_def)
  have failure: "processReferralCommission_try insert_fault 5
        (update_rows 5 (success_update ''TXN_1_a'') sample_store)
        (t_id ?t) (t_user_id ?t) (t_amount ?t) = Inl StoreFailure"
    by (simp add: sample_transaction_fields processReferralCommission_try_def
          update_rows_fields sample_buyer_row insert_fault_def sample_buyer_def)
  have ext: "or_null (uts_external_transaction_id (success_update ''TXN_1_a'')) = Some ''EXT_123456''"
    by (simp add: or_null_def success_update_def)
  from updateTransactionStatus_survives_settlement_failure
         [OF ok sample_hit_1 success_update_status failure]
    ok failure ext
  show ?thesis by (simp add: sample_transaction_fields)
qed

section \<open>Commission settlement\<close>

lemma processReferralCommission_no_referrer:
  assumes "filter (\<lambda>u. u_id u = userId) (users s) = u # us"
      and "u_referred_by_id u = None"
  shows "processReferralCommission f now s transactionId userId amount = s"
  using assms
  by (simp add: processReferralCommission_def processReferralCommission_try_def)

lemma processReferralCommission_referrer:
  assumes "filter (\<lambda>u. u_id u = userId) (users s) = u # us"
      and "u_referred_by_id u = Some r" and "r \<noteq> 0"
      and "\<not> select_user_throws f" and "\<not> insert_referral_throws f"
  shows "processReferralCommission f now s transactionId userId amount
           = insert_referral now s r userId (of_int (calculateCommission amount)) transactionId"
  using assms
  by (simp add: processReferralCommission_def processReferralCommission_try_def)

lemma updateTransactionStatus_success_referrer:
  assumes ok: "\<not> update_throws f" "\<not> select_user_throws f" "\<not> insert_referral_throws f"
      and row: "filter (hit input) (transactions s) = t # ts"
      and success: "uts_status input = Success"
      and buyer: "filter (\<lambda>u. u_id u = t_user_id t) (users s) = u # us"
      and referrer: "u_referred_by_id u = Some r" "r \<noteq> 0"
  shows "updateTransactionStatus f now s input
           = Inr (Some (set_status now input t),
                  insert_referral now (update_rows now input s) r (t_user_id t)
                    (of_int (calculateCommission (t_amount t))) (t_id t))"
proof -
  from buyer have "filter (\<lambda>u. u_id u = t_user_id t) (users (update_rows now input s)) = u # us"
    by (simp add: update_rows_fields)
  from processReferralCommission_referrer [OF this referrer ok(2,3)] ok(1) success
  show ?thesis
    by (simp add: updateTransactionStatus_def returning_first [OF row] set_status_fields)
qed

lemma insert_referral_fields:
  "referrals (insert_referral now s r uid c tid) = referrals s @ [new_referral now s r uid c tid]"
  "users (insert_referral now s r uid c tid) = users s"
  "transactions (insert_referral now s r uid c tid) = transactions s"
  by (simp_all add: insert_referral_def)

text \<open>
  What the commission step of a success update does to the referrals table: nothing when
  the buyer's row has no referrer; one unpaid row for the referrer and the buyer when it
  has one and the step's store calls do not throw, with the commission that
  \<open>calculateCommission\<close> gives for the transaction's \<open>amount\<close>.
\<close>

lemma updateTransactionStatus_settles_commission:
  assumes ok: "\<not> update_throws f"
      and row: "filter (hit input) (transactions s) = t # ts"
      and success: "uts_status input = Success"
      and buyer: "filter (\<lambda>u. u_id u = t_user_id t) (users s) = u # us"
  shows "(u_referred_by_id u = None \<longrightarrow>
            (\<exists>s'. updateTransactionStatus f now s input = Inr (Some (set_status now input t), s')
               \<and> referrals s' = referrals s))
       \<and> (\<forall>r. u_referred_by_id u = Some r \<and> r \<noteq> 0
              \<and> \<not> select_user_throws f \<and> \<not> insert_referral_throws f \<longrightarrow>
            (\<exists>s'. updateTransactionStatus f now s input = Inr (Some (set_status now input t), s')
               \<and> referrals s' = referrals s @
                    [\<lparr> r_id = referrals_id_seq s, r_referrer_id = r,
                       r_referred_id = t_user_id t,
                       r_commission_amount = of_int (round (t_amount t * (5 / 100))),
                       r_transaction_id = t_id t, r_is_paid = False, r_created_at = now \<rparr>]))"
proof (intro conjI allI impI)
  assume none: "u_referred_by_id u = None"
  from buyer have "filter (\<lambda>u. u_id u = t_user_id t) (users (update_rows now input s)) = u # us"
    by (simp add: update_rows_fields)
  from processReferralCommission_no_referrer [OF this none] ok success
  have "updateTransactionStatus f now s input
              = Inr (Some (set_status now input t), update_rows now input s)"
    by (simp add: updateTransactionStatus_def returning_first [OF row] set_status_fields)
  then show "\<exists>s'. updateTransactionStatus f now s input = Inr (Some (set_status now input t), s')
               \<and> referrals s' = referrals s"
    by (simp add: update_rows_fields)
next
  fix r
  assume h: "u_referred_by_id u = Some r \<and> r \<noteq> 0
              \<and> \<not> select_user_throws f \<and> \<not> insert_referral_throws f"
  then have "updateTransactionStatus f now s input
           = Inr (Some (set_status now input t),
                  insert_referral now (update_rows now input s) r (t_user_id t)
                    (of_int (calculateCommission (t_amount t))) (t_id t))"
    using updateTransactionStatus_success_referrer [OF ok _ _ row success buyer] by simp
  then show "\<exists>s'. updateTransactionStatus f now s input = Inr (Some (set_status now input t), s')
               \<and> referrals s' = referrals s @
                    [\<lparr> r_id = referrals_id_seq s, r_referrer_id = r,
                       r_referred_id = t_user_id t,
                       r_commission_amount = of_int (round (t_amount t * (5 / 100))),
                       r_transaction_id = t_id t, r_is_paid = False, r_created_at = now \<rparr>]"
    by (simp add: insert_referral_fields update_rows_fields new_referral_def
          calculateCommission_def)
qed

lemma sample_buyer_fields:
  "u_referred_by_id sample_buyer = Some 1" "u_referred_by_id sample_solo = None"
  by (simp_all add: sample_buyer_def sample_solo_def)

lemma deliver_success_referrer:
  assumes ok: "\<not> update_throws f" "\<not> select_user_throws f" "\<not> insert_referral_throws f"
      and row: "filter (hit input) (transactions s) = t # ts"
      and success: "uts_status input = Success"
      and buyer: "filter (\<lambda>u. u_id u = t_user_id t) (users s) = u # us"
      and referrer: "u_referred_by_id u = Some r" "r \<noteq> 0"
  shows "deliver s (f, now, input)
           = insert_referral now (update_rows now input s) r (t_user_id t)
               (of_int (calculateCommission (t_amount t))) (t_id t)"
  by (simp add: deliver_def updateTransactionStatus_success_referrer [OF assms])

text \<open>
  C2, at the input where the status-update path departs from it. The buyer of the sample
  transaction with amount 25000 and price 10000 has a referrer. The claim asks for one
  referral whose commission is the charged price times 0.05, rounded: 500. The success
  update creates one referral, but computes its commission from the amount: 1250. The
  exported \<open>processReferralCommission\<close> of the referral handlers, run for the same
  transaction, computes it from the price and gives 500.
\<close>

theorem settlement_uses_amount_counterexample:
  "t_price (sample_transaction 2 2 2 ''TXN_2_b'' 25000 10000) = 10000
   \<and> of_int (round (t_price (sample_transaction 2 2 2 ''TXN_2_b'' 25000 10000) * (5 / 100)))
       = (500 :: rat)
   \<and> map r_commission_amount
        (referrals (deliver sample_store (no_faults, 5, success_update ''TXN_2_b''))) = [1250]
   \<and> map r_commission_amount
        (referrals (deliver sample_store (no_faults, 5, success_update ''TXN_2_b'')))
       \<noteq> [of_int (round (t_price (sample_transaction 2 2 2 ''TXN_2_b'' 25000 10000) * (5 / 100)))]
   \<and> map_option r_commission_amount (fst (processReferralCommission_exported 5 sample_store 2))
       = Some 500"
proof -
  have buyer: "filter (\<lambda>u. u_id u = t_user_id (sample_transaction 2 2 2 ''TXN_2_b'' 25000 10000))
                (users sample_store) = [sample_buyer]"
    by (simp add: sample_transaction_fields sample_buyer_row)
  have "referrals sample_store = []" by (simp add: sample_store_def)
  with deliver_success_referrer [OF no_faults_fields sample_hit_2 success_update_status buyer
         sample_buyer_fields(1), of 5]
  have status_path: "map r_commission_amount
        (referrals (deliver sample_store (no_faults, 5, success_update ''TXN_2_b''))) = [1250]"
    by (simp add: insert_referral_fields update_rows_fields new_referral_def
          sample_transaction_fields calculateCommission_def)
  have joined: "concat (map (\<lambda>t. map (\<lambda>u. (t, u))
                                (filter (\<lambda>u. u_id u = t_user_id t) (users sample_store)))
                          (filter (\<lambda>t. t_id t = 2) (transactions sample_store)))
                  = [(sample_transaction 2 2 2 ''TXN_2_b'' 25000 10000, sample_buyer)]"
    by (simp add: sample_store_def sample_transaction_def sample_referrer_def
          sample_buyer_def sample_solo_def)
  have exported: "map_option r_commission_amount
                    (fst (processReferralCommission_exported 5 sample_store 2)) = Some 500"
    by (simp add: processReferralCommission_exported_def joined sample_buyer_fields
          sample_transaction_fields new_referral_def Let_def)
  from status_path exported show ?thesis by (simp add: sample_transaction_fields)
qed

lemma referrals_of_transaction_insert:
  "referrals_of_transaction (insert_referral now s r uid c tid) tid
     = referrals_of_transaction s tid @ [new_referral now s r uid c tid]"
  by (simp add: referrals_of_transaction_def insert_referral_def new_referral_def)

lemma referrals_of_transaction_update_rows:
  "referrals_of_transaction (update_rows now input s) tid = referrals_of_transaction s tid"
  by (simp add: referrals_of_transaction_def update_rows_fields)

text \<open>
  C1, as the code has it. There is no guard on repeated deliveries: when no store call
  throws and the buyer has a referrer, every delivery of a success update for an
  existing transaction adds one referral row for that transaction, so after the
  deliveries at the clock readings \<open>nows\<close> the transaction has \<open>length nows\<close> more referral
  rows than before.
\<close>

theorem repeated_success_adds_one_referral_each:
  assumes ok: "\<not> update_throws f" "\<not> select_user_throws f" "\<not> insert_referral_throws f"
      and success: "uts_status input = Success"
      and referrer: "u_referred_by_id u = Some r" "r \<noteq> 0"
      and row: "filter (hit input) (transactions s) = t # ts"
      and buyer: "filter (\<lambda>u. u_id u = t_user_id t) (users s) = u # us"
  shows "length (referrals_of_transaction
                   (deliveries s (map (\<lambda>now. (f, now, input)) nows)) (t_id t))
           = length (referrals_of_transaction s (t_id t)) + length nows"
  using row buyer
proof (induction nows arbitrary: s t ts)
  case Nil
  then show ?case by (simp add: deliveries_def)
next
  case (Cons now nows)
  let ?s = "deliver s (f, now, input)"
  let ?t = "set_status now input t"
  have step: "?s = insert_referral now (update_rows now input s) r (t_user_id t)
                     (of_int (calculateCommission (t_amount t))) (t_id t)"
    by (rule deliver_success_referrer [OF ok Cons.prems(1) success Cons.prems(2) referrer])
  have row': "filter (hit input) (transactions ?s) = ?t # map (set_status now input) ts"
    by (simp add: step insert_referral_fields filter_hit_update_rows Cons.prems(1))
  have buyer': "filter (\<lambda>u. u_id u = t_user_id ?t) (users ?s) = u # us"
    by (simp add: step insert_referral_fields update_rows_fields set_status_fields Cons.prems(2))
  have count: "length (referrals_of_transaction ?s (t_id t))
                 = length (referrals_of_transaction s (t_id t)) + 1"
    by (simp add: step referrals_of_transaction_insert referrals_of_transaction_update_rows)
  have "length (referrals_of_transaction
                   (deliveries ?s (map (\<lambda>now. (f, now, input)) nows)) (t_id ?t))
           = length (referrals_of_transaction ?s (t_id ?t)) + length nows"
    by (rule Cons.IH [OF row' buyer'])
  then show ?case
    by (simp add: deliveries_def set_status_fields count)
qed

theorem repeated_success_adds_one_referral_each_witness:
  "length (referrals_of_transaction sample_store 1) = 0
   \<and> length (referrals_of_transaction
        (deliveries sample_store
           [(no_faults, 5, success_update ''TXN_1_a''), (no_faults, 6, success_update ''TXN_1_a'')])
        1) = 2"
proof -
  have buyer: "filter (\<lambda>u. u_id u = t_user_id (sample_transaction 1 2 1 ''TXN_1_a'' 5500 5500))
                (users sample_store) = [sample_buyer]"
    by (simp add: sample_transaction_fields sample_buyer_row)
  have none: "referrals_of_transaction sample_store 1 = []"
    by (simp add: referrals_of_transaction_def sample_store_def)
  from repeated_success_adds_one_referral_each
         [OF no_faults_fields success_update_status sample_buyer_fields(1) _ sample_hit_1 buyer,
          of "[5, 6]"]
  show ?thesis by (simp add: sample_transaction_fields none)
qed

text \<open>
  Delivering the same success update twice to the sample store leaves two referral rows
  for transaction 1, not one.
\<close>

theorem double_success_two_referrals_counterexample:
  "t_id (sample_transaction 1 2 1 ''TXN_1_a'' 5500 5500) = 1
   \<and> length (referrals_of_transaction
        (deliveries sample_store
           [(no_faults, 5, success_update ''TXN_1_a''), (no_faults, 6, success_update ''TXN_1_a'')])
        1) = 2
   \<and> length (referrals_of_transaction
        (deliveries sample_store
           [(no_faults, 5, success_update ''TXN_1_a''), (no_faults, 6, success_update ''TXN_1_a'')])
        1) \<noteq> 1"
proof -
  let ?i = "success_update ''TXN_1_a''"
  let ?t = "sample_transaction 1 2 1 ''TXN_1_a'' 5500 5500"
  let ?s1 = "deliver sample_store (no_faults, 5, ?i)"
  have buyer: "filter (\<lambda>u. u_id u = t_user_id ?t) (users sample_store) = [sample_buyer]"
    by (simp add: sample_transaction_fields sample_buyer_row)
  have s1: "?s1 = insert_referral 5 (update_rows 5 ?i sample_store) 1 (t_user_id ?t)
                     (of_int (calculateCommission (t_amount ?t))) (t_id ?t)"
    by (rule deliver_success_referrer [OF no_faults_fields sample_hit_1 success_update_status
              buyer sample_buyer_fields(1)]) simp
  have row1: "filter (hit ?i) (transactions ?s1) = [set_status 5 ?i ?t]"
    by (simp add: s1 insert_referral_fields filter_hit_update_rows sample_hit_1)
  have buyer1: "filter (\<lambda>u. u_id u = t_user_id (set_status 5 ?i ?t)) (users ?s1) = [sample_buyer]"
    by (simp add: s1 insert_referral_fields update_rows_fields set_status_fields buyer)
  have s2: "deliver ?s1 (no_faults, 6, ?i)
              = insert_referral 6 (update_rows 6 ?i ?s1) 1 (t_user_id (set_status 5 ?i ?t))
                     (of_int (calculateCommission (t_amount (set_status 5 ?i ?t))))
                     (t_id (set_status 5 ?i ?t))"
    by (rule deliver_success_referrer [OF no_faults_fields row1 success_update_status
              buyer1 sample_buyer_fields(1)]) simp
  have "referrals_of_transaction sample_store (t_id ?t) = []"
    by (simp add: referrals_of_transaction_def sample_store_def)
  then have "length (referrals_of_transaction (deliver ?s1 (no_faults, 6, ?i)) (t_id ?t)) = 2"
    by (subst s2)
       (simp add: set_status_fields referrals_of_transaction_insert
          referrals_of_transaction_update_rows s1)
  then show ?thesis by (simp add: deliveries_def sample_transaction_fields)
qed

section \<open>Provider response classification\<close>

text \<open>
  C8. A provider response that is neither a success (status \<open>Sukses\<close> with response code
  \<open>00\<close>) nor pending (status \<open>Pending\<close> or \<open>Process\<close>, or message \<open>PROCESS\<close>) and whose
  response code is not \<open>00\<close> is classified as failed.
\<close>

theorem isDigiflazzFailed_outside_sentinels:
  assumes "\<not> isDigiflazzSuccess response" and "\<not> isDigiflazzPending response"
      and "d_rc response \<noteq> ''00''"
  shows "isDigiflazzFailed response"
  using assms by (simp add: isDigiflazzFailed_def isDigiflazzPending_def)

theorem isDigiflazzFailed_outside_sentinels_witness:
  "\<not> isDigiflazzSuccess timeout_response \<and> \<not> isDigiflazzPending timeout_response
   \<and> d_rc timeout_response \<noteq> ''00'' \<and> isDigiflazzFailed timeout_response"
proof -
  have a: "\<not> isDigiflazzSuccess timeout_response"
    by (simp add: isDigiflazzSuccess_def timeout_response_def)
  have b: "\<not> isDigiflazzPending timeout_response"
    by (simp add: isDigiflazzPending_def timeout_response_def)
  have c: "d_rc timeout_response \<noteq> ''00''"
    by (simp add: timeout_response_def)
  from isDigiflazzFailed_outside_sentinels [OF a b c] a b c show ?thesis by simp
qed

section \<open>Login\<close>

lemma login_failure_message:
  assumes "login kdf generateToken s input = Inl e"
  shows "e = Error ''Invalid email or password''"
  using assms by (auto simp: login_def split: list.splits if_splits)

text \<open>
  C9. A login with an email that matches no user and a login with an existing email
  whose password does not verify return the same error, the message
  \<open>Invalid email or password\<close>; and this is the only error any login returns.
\<close>

theorem login_failures_indistinguishable:
  assumes unknown: "filter (\<lambda>u. u_email u = li_email a) (users s) = []"
      and known: "filter (\<lambda>u. u_email u = li_email b) (users s) = user # rest"
      and wrong: "\<not> verifyPassword kdf (li_password b) (u_password_hash user)"
  shows "login kdf generateToken s a = Inl (Error ''Invalid email or password'')
       \<and> login kdf generateToken s b = login kdf generateToken s a
       \<and> (\<forall>c e. login kdf generateToken s c = Inl e \<longrightarrow> e = Error ''Invalid email or password'')"
  using assms login_failure_message by (auto simp: login_def)

theorem login_failures_indistinguishable_witness:
  "filter (\<lambda>u. u_email u = li_email \<lparr>li_email = ''nobody@test.com'', li_password = ''secret12''\<rparr>)
     (users sample_store) = []
   \<and> filter (\<lambda>u. u_email u = li_email \<lparr>li_email = ''user@test.com'', li_password = ''wrongpass''\<rparr>)
     (users sample_store) = [sample_buyer]
   \<and> \<not> verifyPassword sample_kdf ''wrongpass'' (u_password_hash sample_buyer)
   \<and> login sample_kdf sample_token sample_store
        \<lparr>li_email = ''user@test.com'', li_password = ''wrongpass''\<rparr>
     = login sample_kdf sample_token sample_store
        \<lparr>li_email = ''nobody@test.com'', li_password = ''secret12''\<rparr>
   \<and> login sample_kdf sample_token sample_store
        \<lparr>li_email = ''nobody@test.com'', li_password = ''secret12''\<rparr>
     = Inl (Error ''Invalid email or password'')"
proof -
  have u: "filter (\<lambda>u. u_email u = li_email \<lparr>li_email = ''nobody@test.com'', li_password = ''secret12''\<rparr>)
     (users sample_store) = []"
    by (simp add: sample_store_def sample_referrer_def sample_buyer_def sample_solo_def)
  have k: "filter (\<lambda>u. u_email u = li_email \<lparr>li_email = ''user@test.com'', li_password = ''wrongpass''\<rparr>)
     (users sample_store) = [sample_buyer]"
    by (simp add: sample_store_def sample_referrer_def sample_buyer_def sample_solo_def)
  have w: "\<not> verifyPassword sample_kdf (li_password \<lparr>li_email = ''user@test.com'', li_password = ''wrongpass''\<rparr>) (u_password_hash sample_buyer)"
    by (simp add: verifyPassword_def sample_kdf_def sample_buyer_def)
  from login_failures_indistinguishable [OF u k w, of sample_token] u k w
  show ?thesis by simp
qed

section \<open>Listing referred users\<close>

lemma join_rows_fst: "row \<in> set (join_rows ts u) \<Longrightarrow> fst row = u"
  by (cases "filter (on_success u) ts") (auto simp: join_rows_def)

lemma join_rows_not_Nil: "join_rows ts u \<noteq> []"
  by (cases "filter (on_success u) ts") (simp_all add: join_rows_def)

lemma join_rows_keys:
  "map group_key (join_rows ts u) \<noteq> []"
  "\<forall>k \<in> set (map group_key (join_rows ts u)). k = user_key u"
  by (simp_all add: join_rows_not_Nil group_key_def user_key_def join_rows_fst)

lemma remdups_constant_prefix:
  assumes "xs \<noteq> []" and "\<forall>x \<in> set xs. x = k" and "k \<notin> set ys"
  shows "remdups (xs @ ys) = k # remdups ys"
  using assms
proof (induction xs)
  case Nil
  then show ?case by simp
next
  case (Cons x xs)
  from Cons.prems have x: "x = k" by simp
  show ?case
  proof (cases "xs = []")
    case True
    with Cons.prems(3) x show ?thesis by simp
  next
    case False
    then have "hd xs \<in> set xs" by simp
    with Cons.prems(2) have "k \<in> set xs" by auto
    moreover have "remdups (xs @ ys) = k # remdups ys"
      using Cons.IH [OF False _ Cons.prems(3)] Cons.prems(2) by simp
    ultimately show ?thesis using x by simp
  qed
qed

lemma user_key_inj: "user_key u = user_key v \<Longrightarrow> u_id u = u_id v"
  by (simp add: user_key_def)

lemma concat_join_keys:
  "set (map group_key (concat (map (join_rows ts) us))) = user_key ` set us"
proof (induction us)
  case Nil
  then show ?case by simp
next
  case (Cons u us)
  have "set (map group_key (concat (map (join_rows ts) (u # us))))
          = set (map group_key (join_rows ts u)) \<union> set (map group_key (concat (map (join_rows ts) us)))"
    by simp
  moreover have "set (map group_key (join_rows ts u)) = {user_key u}"
    using join_rows_keys [of ts u] by (cases "join_rows ts u") auto
  ultimately show ?case using Cons.IH by simp
qed

lemma remdups_join_keys:
  assumes "distinct (map u_id us)"
  shows "remdups (map group_key (concat (map (join_rows ts) us))) = map user_key us"
  using assms
proof (induction us)
  case Nil
  then show ?case by simp
next
  case (Cons u us)
  have fresh: "user_key u \<notin> set (map group_key (concat (map (join_rows ts) us)))"
  proof
    assume "user_key u \<in> set (map group_key (concat (map (join_rows ts) us)))"
    then have "user_key u \<in> user_key ` set us" by (simp only: concat_join_keys)
    then obtain v where v: "v \<in> set us" "user_key u = user_key v" by auto
    from v(2) have "u_id u = u_id v" by (rule user_key_inj)
    with v(1) have "u_id u \<in> set (map u_id us)" by simp
    with Cons.prems show False by simp
  qed
  have "map group_key (concat (map (join_rows ts) (u # us)))
          = map group_key (join_rows ts u) @ map group_key (concat (map (join_rows ts) us))"
    by simp
  then have "remdups (map group_key (concat (map (join_rows ts) (u # us))))
          = user_key u # remdups (map group_key (concat (map (join_rows ts) us)))"
    using remdups_constant_prefix [OF join_rows_keys fresh] by simp
  with Cons show ?case by simp
qed

lemma filter_group_join:
  assumes "distinct (map u_id us)" and "u \<in> set us"
  shows "filter (\<lambda>row. group_key row = user_key u) (concat (map (join_rows ts) us))
           = join_rows ts u"
  using assms
proof (induction us)
  case Nil
  then show ?case by simp
next
  case (Cons v us)
  have own: "filter (\<lambda>row. group_key row = user_key w) (join_rows ts w) = join_rows ts w" for w
    by (rule filter_True) (simp add: group_key_def user_key_def join_rows_fst)
  have other: "filter (\<lambda>row. group_key row = user_key u) (join_rows ts w) = []"
    if "u_id w \<noteq> u_id u" for w
    using that by (auto simp: filter_empty_conv group_key_def user_key_def dest: join_rows_fst)
  show ?case
  proof (cases "u = v")
    case True
    have "\<forall>w \<in> set us. u_id w \<noteq> u_id u"
      using Cons.prems(1) True by (auto simp: image_iff)
    then have "filter (\<lambda>row. group_key row = user_key u) (concat (map (join_rows ts) us)) = []"
      by (induction us) (simp_all add: other)
    with True own show ?thesis by simp
  next
    case False
    with Cons.prems have in_rest: "u \<in> set us" by simp
    then have "u_id u \<in> set (map u_id us)" by simp
    with Cons.prems(1) have "u_id v \<noteq> u_id u" by auto
    with Cons.IH in_rest Cons.prems(1) other show ?thesis by simp
  qed
qed

lemma referred_rows_eq:
  "referred_rows s userId
     = concat (map (join_rows (transactions s))
                 (filter (\<lambda>u. u_referred_by_id u = Some userId) (users s)))"
proof -
  have keep: "filter (\<lambda>row. u_referred_by_id (fst row) = Some userId) (join_rows ts u)
                = (if u_referred_by_id u = Some userId then join_rows ts u else [])" for ts u
    by (auto simp: filter_empty_conv join_rows_fst intro!: filter_True)
  have "filter (\<lambda>row. u_referred_by_id (fst row) = Some userId) (concat (map (join_rows ts) us))
          = concat (map (join_rows ts) (filter (\<lambda>u. u_referred_by_id u = Some userId) us))" for ts us
    by (induction us) (simp_all add: keep)
  then show ?thesis by (simp add: referred_rows_def left_join_success_def)
qed


lemma on_success_filter:
  "filter (on_success u) ts = filter (\<lambda>t. t_user_id t = u_id u \<and> t_status t = Success) ts"
  by (simp add: on_success_def [abs_def])

lemma aggregate_join_rows:
  "sql_count (map (\<lambda>row. map_option t_id (snd row)) (join_rows ts u))
     = length (filter (on_success u) ts)"
  "coalesce (sql_sum (map (\<lambda>row. map_option t_price (snd row)) (join_rows ts u))) 0
     = sum_list (map t_price (filter (on_success u) ts))"
  by (simp_all add: join_rows_def sql_count_def sql_sum_def coalesce_def List.map_filter_def o_def
        split: list.splits)


lemma aggregate_group_user:
  assumes "distinct (map u_id us)" and "u \<in> set us"
  shows "aggregate_group (concat (map (join_rows ts) us)) (user_key u) = referral_summary ts u"
proof -
  have g: "filter (\<lambda>row. group_key row = user_key u) (concat (map (join_rows ts) us))
             = join_rows ts u"
    by (rule filter_group_join [OF assms])
  have k: "fst (user_key u) = u_id u" "fst (snd (user_key u)) = u_full_name u"
    "fst (snd (snd (user_key u))) = u_email u" "snd (snd (snd (user_key u))) = u_created_at u"
    by (simp_all add: user_key_def)
  show ?thesis
    by (simp add: aggregate_group_def Let_def g k aggregate_join_rows on_success_filter
          referral_summary_def)
qed

lemma getUserReferrals_summary:
  assumes pk: "distinct (map u_id (users s))"
      and perm: "\<And>ks. mset (emit ks) = mset ks"
  shows "mset (referred_users (getUserReferrals emit s userId))
           = mset (map (referral_summary (transactions s))
                    (filter (\<lambda>u. u_referred_by_id u = Some userId) (users s)))"
proof -
  let ?us = "filter (\<lambda>u. u_referred_by_id u = Some userId) (users s)"
  let ?rows = "concat (map (join_rows (transactions s)) ?us)"
  have d: "distinct (map u_id ?us)"
    using pk by (rule distinct_map_filter)
  have in_order: "map (aggregate_group ?rows) (remdups (map group_key ?rows))
                    = map (referral_summary (transactions s)) ?us"
  proof -
    have "map (aggregate_group ?rows) (remdups (map group_key ?rows))
            = map (\<lambda>u. aggregate_group ?rows (user_key u)) ?us"
      by (simp add: remdups_join_keys [OF d] o_def)
    also have "\<dots> = map (referral_summary (transactions s)) ?us"
      by (rule map_cong [OF refl]) (rule aggregate_group_user [OF d])
    finally show ?thesis .
  qed
  have "mset (referred_users (getUserReferrals emit s userId))
          = image_mset (aggregate_group ?rows) (mset (emit (remdups (map group_key ?rows))))"
    by (simp add: getUserReferrals_def referred_rows_eq Let_def)
  also have "\<dots> = image_mset (aggregate_group ?rows) (mset (remdups (map group_key ?rows)))"
    by (simp only: perm)
  also have "\<dots> = mset (map (aggregate_group ?rows) (remdups (map group_key ?rows)))"
    by simp
  finally show ?thesis by (simp only: in_order)
qed

lemma join_rows_success_only:
  "join_rows (filter (\<lambda>t. t_status t = Success) ts) u = join_rows ts u"
proof -
  have "filter (on_success u) (filter (\<lambda>t. t_status t = Success) ts) = filter (on_success u) ts"
    by (auto simp: on_success_def intro: filter_cong)
  then show ?thesis by (simp add: join_rows_def)
qed

lemma getUserReferrals_success_only:
  "getUserReferrals emit
     (s\<lparr>transactions := filter (\<lambda>t. t_status t = Success) (transactions s)\<rparr>) userId
     = getUserReferrals emit s userId"
  by (simp add: getUserReferrals_def referred_rows_def left_join_success_def
        join_rows_success_only [abs_def])

text \<open>
  C7. With user ids unique (the primary key) and the groups returned in any order,
  \<open>getUserReferrals\<close> returns, up to that order, one entry for each user referred by the
  given id, holding the number and the total price of that user's transactions with
  status \<open>success\<close>; the result is the same when every transaction with another status is
  removed from the store; and a referred user without transactions has an entry with
  both totals zero.
\<close>

theorem getUserReferrals_counts_successful_only:
  assumes pk: "distinct (map u_id (users s))"
      and perm: "\<And>ks. mset (emit ks) = mset ks"
  shows "mset (referred_users (getUserReferrals emit s userId))
           = mset (map (referral_summary (transactions s))
                    (filter (\<lambda>u. u_referred_by_id u = Some userId) (users s)))
       \<and> total_referred (getUserReferrals emit s userId)
           = length (filter (\<lambda>u. u_referred_by_id u = Some userId) (users s))
       \<and> getUserReferrals emit
            (s\<lparr>transactions := filter (\<lambda>t. t_status t = Success) (transactions s)\<rparr>) userId
           = getUserReferrals emit s userId
       \<and> (\<forall>u \<in> set (users s). u_referred_by_id u = Some userId
             \<and> filter (\<lambda>t. t_user_id t = u_id u) (transactions s) = [] \<longrightarrow>
             (\<exists>e \<in> set (referred_users (getUserReferrals emit s userId)).
                ru_id e = u_id u \<and> ru_total_transactions e = 0 \<and> ru_total_spent e = 0))"
proof (intro conjI ballI impI)
  show eq: "mset (referred_users (getUserReferrals emit s userId))
           = mset (map (referral_summary (transactions s))
                    (filter (\<lambda>u. u_referred_by_id u = Some userId) (users s)))"
    by (rule getUserReferrals_summary [OF pk perm])
  have "total_referred (getUserReferrals emit s userId)
          = size (mset (referred_users (getUserReferrals emit s userId)))"
    by (simp add: getUserReferrals_def Let_def)
  then show "total_referred (getUserReferrals emit s userId)
           = length (filter (\<lambda>u. u_referred_by_id u = Some userId) (users s))"
    by (simp only: eq size_mset length_map)
  show "getUserReferrals emit
            (s\<lparr>transactions := filter (\<lambda>t. t_status t = Success) (transactions s)\<rparr>) userId
           = getUserReferrals emit s userId"
    by (rule getUserReferrals_success_only)
  fix u
  assume u: "u \<in> set (users s)"
     and h: "u_referred_by_id u = Some userId
             \<and> filter (\<lambda>t. t_user_id t = u_id u) (transactions s) = []"
  from h have none: "filter (\<lambda>t. t_user_id t = u_id u \<and> t_status t = Success) (transactions s) = []"
    by (auto simp: filter_empty_conv)
  have "set (referred_users (getUserReferrals emit s userId))
          = set (map (referral_summary (transactions s))
                   (filter (\<lambda>u. u_referred_by_id u = Some userId) (users s)))"
    using eq by (rule mset_eq_setD)
  with u h have "referral_summary (transactions s) u
                   \<in> set (referred_users (getUserReferrals emit s userId))"
    by simp
  moreover have "ru_id (referral_summary (transactions s) u) = u_id u"
    "ru_total_transactions (referral_summary (transactions s) u) = 0"
    "ru_total_spent (referral_summary (transactions s) u) = 0"
    by (simp_all add: referral_summary_def none)
  ultimately show "\<exists>e \<in> set (referred_users (getUserReferrals emit s userId)).
                ru_id e = u_id u \<and> ru_total_transactions e = 0 \<and> ru_total_spent e = 0"
    by blast
qed

theorem getUserReferrals_counts_successful_only_witness:
  "distinct (map u_id (users referral_store))
   \<and> (\<forall>ks :: (int \<times> string \<times> string \<times> timestamp) list. mset (rev ks) = mset ks)
   \<and> mset (referred_users (getUserReferrals rev referral_store 1))
       = {# \<lparr> ru_id = 2, ru_full_name = ''Test User'', ru_email = ''user@test.com'',
              ru_joined_date = 0, ru_total_transactions = 1, ru_total_spent = 5500 \<rparr>,
            \<lparr> ru_id = 4, ru_full_name = ''Idle User'', ru_email = ''idle@test.com'',
              ru_joined_date = 2, ru_total_transactions = 0, ru_total_spent = 0 \<rparr> #}
   \<and> total_referred (getUserReferrals rev referral_store 1) = 2"
proof -
  have pk: "distinct (map u_id (users referral_store))"
    by (simp add: referral_store_def sample_referrer_def sample_buyer_def sample_idle_def)
  have perm: "mset (rev ks) = mset ks" for ks :: "(int \<times> string \<times> string \<times> timestamp) list"
    by simp
  have us: "filter (\<lambda>u. u_referred_by_id u = Some 1) (users referral_store)
              = [sample_buyer, sample_idle]"
    by (simp add: referral_store_def sample_referrer_def sample_buyer_def sample_idle_def)
  have a: "referral_summary (transactions referral_store) sample_buyer
             = \<lparr> ru_id = 2, ru_full_name = ''Test User'', ru_email = ''user@test.com'',
                 ru_joined_date = 0, ru_total_transactions = 1, ru_total_spent = 5500 \<rparr>"
    by (simp add: referral_summary_def referral_store_def sample_transaction_def sample_buyer_def)
  have b: "referral_summary (transactions referral_store) sample_idle
             = \<lparr> ru_id = 4, ru_full_name = ''Idle User'', ru_email = ''idle@test.com'',
                 ru_joined_date = 2, ru_total_transactions = 0, ru_total_spent = 0 \<rparr>"
    by (simp add: referral_summary_def referral_store_def sample_transaction_def sample_idle_def)
  note t = getUserReferrals_counts_successful_only [OF pk perm, of 1]
  from t have "mset (referred_users (getUserReferrals rev referral_store 1))
       = {# \<lparr> ru_id = 2, ru_full_name = ''Test User'', ru_email = ''user@test.com'',
              ru_joined_date = 0, ru_total_transactions = 1, ru_total_spent = 5500 \<rparr>,
            \<lparr> ru_id = 4, ru_full_name = ''Idle User'', ru_email = ''idle@test.com'',
              ru_joined_date = 2, ru_total_transactions = 0, ru_total_spent = 0 \<rparr> #}"
    by (simp add: us a b)
  moreover from t have "total_referred (getUserReferrals rev referral_store 1) = 2"
    by (simp add: us)
  ultimately show ?thesis using pk by simp
qed

end
